theory Spec2Isabelle
  imports Main "HOL-Library.Word"
begin

unbundle bit_operations_syntax

section \<open>Constants\<close>

text \<open>The two capacities are the \<^verbatim>\<open>#define\<close>s at the top of \<^verbatim>\<open>xdp_filter.c\<close>.\<close>

definition MAX_CIDR_RULES :: nat where
  "MAX_CIDR_RULES = 1024"

definition MAX_PORT_RULES :: nat where
  "MAX_PORT_RULES = 64"

text \<open>
  The remaining constants come from the Linux UAPI headers the file includes
  (\<^verbatim>\<open>linux/if_ether.h\<close>, \<^verbatim>\<open>linux/in.h\<close>, \<^verbatim>\<open>linux/ip.h\<close>, \<^verbatim>\<open>linux/tcp.h\<close>,
  \<^verbatim>\<open>linux/udp.h\<close>, \<^verbatim>\<open>linux/bpf.h\<close>): the EtherType of IPv4, the two protocol numbers,
  and the sizes of the four header structs in bytes.
\<close>

definition ETH_P_IP :: "16 word" where
  "ETH_P_IP = 0x0800"

definition IPPROTO_TCP :: "8 word" where
  "IPPROTO_TCP = 6"

definition IPPROTO_UDP :: "8 word" where
  "IPPROTO_UDP = 17"

definition sizeof_ethhdr :: nat where
  "sizeof_ethhdr = 14"

definition sizeof_iphdr :: nat where
  "sizeof_iphdr = 20"

definition sizeof_tcphdr :: nat where
  "sizeof_tcphdr = 20"

definition sizeof_udphdr :: nat where
  "sizeof_udphdr = 8"

datatype xdp_action = XDP_ABORTED | XDP_DROP | XDP_PASS | XDP_TX | XDP_REDIRECT

section \<open>Data model\<close>

text \<open>\<^verbatim>\<open>struct cidr_rule\<close>; the field \<^verbatim>\<open>mask\<close> is \<open>mask_c\<close> here, \<open>mask\<close> being a HOL constant.\<close>

record cidr_rule =
  network :: "32 word"
  mask_c :: "32 word"
  port :: "16 word"
  enabled :: "8 word"
  reserved :: "8 word"

text \<open>\<^verbatim>\<open>struct xdp_stats\<close>: ten \<^verbatim>\<open>__u64\<close> counters; addition on \<open>64 word\<close> wraps as in C.\<close>

record xdp_stats =
  packets_total :: "64 word"
  packets_allowed :: "64 word"
  packets_blocked :: "64 word"
  bytes_total :: "64 word"
  bytes_allowed :: "64 word"
  bytes_blocked :: "64 word"
  tcp_packets :: "64 word"
  udp_packets :: "64 word"
  syslog_packets :: "64 word"
  api_packets :: "64 word"

text \<open>
  A BPF array map (\<^verbatim>\<open>BPF_MAP_TYPE_ARRAY\<close>, \<^verbatim>\<open>BPF_MAP_TYPE_PERCPU_ARRAY\<close>) holds a value at
  every index below \<^verbatim>\<open>max_entries\<close>. It is a function from the index, and the lookup
  returns \<open>None\<close> (the C \<^verbatim>\<open>NULL\<close>) for an index outside the capacity. The statistics
  map is the copy of the executing CPU. The C lookup returns a pointer into the map and
  the caller writes through it; the model reads the value and stores the new one back
  at the same key.
\<close>

type_synonym 'v bpf_array = "nat \<Rightarrow> 'v"

definition bpf_map_lookup_elem :: "nat \<Rightarrow> 'v bpf_array \<Rightarrow> nat \<Rightarrow> 'v option" where
  "bpf_map_lookup_elem max_entries m key = (if key < max_entries then Some (m key) else None)"

text \<open>
  The frame is the byte sequence between \<^verbatim>\<open>ctx->data\<close> and \<^verbatim>\<open>ctx->data_end\<close>; a pointer
  into it is an offset from \<^verbatim>\<open>data\<close>, and \<^verbatim>\<open>data_end\<close> is the length.
\<close>

type_synonym frame = "8 word list"

text \<open>
  Loads of multi-byte fields as a little-endian CPU performs them (the \<^verbatim>\<open>bpfel\<close> target),
  and the byte swap that \<^verbatim>\<open>bpf_htons\<close> and \<^verbatim>\<open>bpf_ntohs\<close> are on such a CPU.
\<close>

definition load16 :: "frame \<Rightarrow> nat \<Rightarrow> 16 word" where
  "load16 pkt off = ucast (pkt ! off) OR push_bit 8 (ucast (pkt ! (off + 1)))"

definition load32 :: "frame \<Rightarrow> nat \<Rightarrow> 32 word" where
  "load32 pkt off =
     ucast (pkt ! off) OR push_bit 8 (ucast (pkt ! (off + 1)))
       OR push_bit 16 (ucast (pkt ! (off + 2))) OR push_bit 24 (ucast (pkt ! (off + 3)))"

definition bpf_htons :: "16 word \<Rightarrow> 16 word" where
  "bpf_htons x = push_bit 8 x OR drop_bit 8 x"

definition bpf_ntohs :: "16 word \<Rightarrow> 16 word" where
  "bpf_ntohs x = push_bit 8 x OR drop_bit 8 x"

text \<open>
  The header fields the filter reads. \<^verbatim>\<open>eth->h_proto\<close> sits at offset 12 of the Ethernet
  header; in \<^verbatim>\<open>struct iphdr\<close> the 4-bit field \<^verbatim>\<open>ihl\<close> is the low nibble of byte 0,
  \<^verbatim>\<open>protocol\<close> is byte 9 and \<^verbatim>\<open>saddr\<close> starts at byte 12; \<^verbatim>\<open>dest\<close> starts at byte 2 of
  both \<^verbatim>\<open>struct tcphdr\<close> and \<^verbatim>\<open>struct udphdr\<close>.
\<close>

definition eth_h_proto :: "frame \<Rightarrow> 16 word" where
  "eth_h_proto pkt = load16 pkt 12"

definition ip_ihl :: "frame \<Rightarrow> 8 word" where
  "ip_ihl pkt = (pkt ! sizeof_ethhdr) AND 0x0F"

definition ip_protocol :: "frame \<Rightarrow> 8 word" where
  "ip_protocol pkt = pkt ! (sizeof_ethhdr + 9)"

definition ip_saddr :: "frame \<Rightarrow> 32 word" where
  "ip_saddr pkt = load32 pkt (sizeof_ethhdr + 12)"

definition l4_dest :: "frame \<Rightarrow> nat \<Rightarrow> 16 word" where
  "l4_dest pkt l4 = load16 pkt (l4 + 2)"

section \<open>Helpers\<close>

text \<open>\<^verbatim>\<open>check_cidr_match\<close> (lines 59-69).\<close>

definition check_cidr_match :: "32 word \<Rightarrow> cidr_rule \<Rightarrow> bool" where
  "check_cidr_match ip rule =
     (if enabled rule = 0 then False
      else
        let masked_ip = ip AND mask_c rule;
            masked_network = network rule AND mask_c rule
        in masked_ip = masked_network)"

text \<open>
  \<^verbatim>\<open>check_port_allowed\<close> (lines 72-83). The \<^verbatim>\<open>for\<close> loop is the recursion on \<open>i\<close>;
  \<^verbatim>\<open>break\<close> leaves the loop for the final \<^verbatim>\<open>return 0\<close>.
\<close>

function check_port_allowed_loop :: "16 word bpf_array \<Rightarrow> 16 word \<Rightarrow> nat \<Rightarrow> bool" where
  "check_port_allowed_loop allowed_ports p i =
     (if i < MAX_PORT_RULES then
        (case bpf_map_lookup_elem MAX_PORT_RULES allowed_ports i of
           None \<Rightarrow> False
         | Some allowed_port \<Rightarrow>
             if allowed_port = 0 then False
             else if allowed_port = p then True
             else check_port_allowed_loop allowed_ports p (i + 1))
      else False)"
  by pat_completeness auto
termination
  by (relation "measure (\<lambda>(allowed_ports, p, i). MAX_PORT_RULES - i)") auto

declare check_port_allowed_loop.simps [simp del]

definition check_port_allowed :: "16 word bpf_array \<Rightarrow> 16 word \<Rightarrow> bool" where
  "check_port_allowed allowed_ports p = check_port_allowed_loop allowed_ports p 0"

text \<open>
  \<^verbatim>\<open>update_stats\<close> (lines 86-115). The C \<^verbatim>\<open>int\<close> flags are only tested for being
  non-zero, so they are \<open>bool\<close> here. Each \<^verbatim>\<open>__sync_fetch_and_add\<close> is an addition on
  the counter, in the order of the source.
\<close>

definition update_stats ::
  "xdp_stats bpf_array \<Rightarrow> 64 word \<Rightarrow> bool \<Rightarrow> bool \<Rightarrow> bool \<Rightarrow> bool \<Rightarrow> bool \<Rightarrow> xdp_stats bpf_array" where
  "update_stats xdp_statistics packet_size allowed is_tcp is_udp is_syslog is_api =
     (let key = 0 in
      case bpf_map_lookup_elem 1 xdp_statistics key of
        None \<Rightarrow> xdp_statistics
      | Some stats \<Rightarrow>
          let stats = stats\<lparr>packets_total := packets_total stats + 1\<rparr>;
              stats = stats\<lparr>bytes_total := bytes_total stats + packet_size\<rparr>;
              stats =
                (if allowed then
                   stats\<lparr>packets_allowed := packets_allowed stats + 1,
                         bytes_allowed := bytes_allowed stats + packet_size\<rparr>
                 else
                   stats\<lparr>packets_blocked := packets_blocked stats + 1,
                         bytes_blocked := bytes_blocked stats + packet_size\<rparr>);
              stats =
                (if is_tcp then
                   (let stats = stats\<lparr>tcp_packets := tcp_packets stats + 1\<rparr>
                    in if is_api then stats\<lparr>api_packets := api_packets stats + 1\<rparr> else stats)
                 else if is_udp then
                   (let stats = stats\<lparr>udp_packets := udp_packets stats + 1\<rparr>
                    in if is_syslog then stats\<lparr>syslog_packets := syslog_packets stats + 1\<rparr>
                       else stats)
                 else stats)
          in xdp_statistics(key := stats))"

section \<open>The filter\<close>

text \<open>
  What lines 144-177 of \<^verbatim>\<open>xdp_filter_func\<close> leave in the local variables when the frame
  reaches the port check.
\<close>

record pkt_info =
  src_ip :: "32 word"
  dest_port :: "16 word"
  is_tcp :: bool
  is_udp :: bool
  is_syslog :: bool
  is_api :: bool
  packet_size :: "64 word"

text \<open>
  Lines 119-177: the bounds checks and the header parsing. \<open>Inl\<close> is an early
  \<^verbatim>\<open>return\<close> with that verdict; \<open>Inr\<close> carries the locals on to the port check. Every
  read of the frame comes after the bounds check that the source makes for it.
\<close>

definition parse_frame :: "frame \<Rightarrow> xdp_action + pkt_info" where
  "parse_frame pkt =
     (let data_end = length pkt in
      if sizeof_ethhdr > data_end then Inl XDP_PASS
      else if eth_h_proto pkt \<noteq> bpf_htons ETH_P_IP then Inl XDP_PASS
      else if sizeof_ethhdr + sizeof_iphdr > data_end then Inl XDP_PASS
      else if ip_ihl pkt < 5 then Inl XDP_DROP
      else
        let saddr = ip_saddr pkt;
            pkt_size = (of_nat data_end :: 64 word)
        in
          if ip_protocol pkt = IPPROTO_TCP then
            (let tcp = sizeof_ethhdr + unat (ip_ihl pkt) * 4 in
             if tcp + sizeof_tcphdr > data_end then Inl XDP_DROP
             else
               let dport = bpf_ntohs (l4_dest pkt tcp) in
               Inr \<lparr>src_ip = saddr, dest_port = dport, is_tcp = True, is_udp = False,
                    is_syslog = False,
                    is_api = (dport = 80 \<or> dport = 443 \<or> dport = 8081 \<or> dport = 8082),
                    packet_size = pkt_size\<rparr>)
          else if ip_protocol pkt = IPPROTO_UDP then
            (let udp = sizeof_ethhdr + unat (ip_ihl pkt) * 4 in
             if udp + sizeof_udphdr > data_end then Inl XDP_DROP
             else
               let dport = bpf_ntohs (l4_dest pkt udp) in
               Inr \<lparr>src_ip = saddr, dest_port = dport, is_tcp = False, is_udp = True,
                    is_syslog = (dport \<ge> 10000 \<and> dport \<le> 11000),
                    is_api = False,
                    packet_size = pkt_size\<rparr>)
          else Inl XDP_PASS)"

text \<open>
  The CIDR loop of lines 186-202; the result is the final value of \<^verbatim>\<open>ip_allowed\<close>.
  \<^verbatim>\<open>continue\<close> is the recursive call at \<open>i + 1\<close>, \<^verbatim>\<open>break\<close> returns.
\<close>

function cidr_rules_loop :: "cidr_rule bpf_array \<Rightarrow> 32 word \<Rightarrow> 16 word \<Rightarrow> nat \<Rightarrow> bool" where
  "cidr_rules_loop cidr_rules saddr dport i =
     (if i < MAX_CIDR_RULES then
        (case bpf_map_lookup_elem MAX_CIDR_RULES cidr_rules i of
           None \<Rightarrow> cidr_rules_loop cidr_rules saddr dport (i + 1)
         | Some rule \<Rightarrow>
             if enabled rule = 0 then cidr_rules_loop cidr_rules saddr dport (i + 1)
             else if port rule \<noteq> 0 \<and> port rule \<noteq> dport then
               cidr_rules_loop cidr_rules saddr dport (i + 1)
             else if check_cidr_match saddr rule then True
             else cidr_rules_loop cidr_rules saddr dport (i + 1))
      else False)"
  by pat_completeness auto
termination
  by (relation "measure (\<lambda>(cidr_rules, saddr, dport, i). MAX_CIDR_RULES - i)") auto

declare cidr_rules_loop.simps [simp del]

text \<open>Lines 179-210: the port gate, the CIDR scan, the statistics update, the verdict.\<close>

definition filter_decision ::
  "16 word bpf_array \<Rightarrow> cidr_rule bpf_array \<Rightarrow> xdp_stats bpf_array \<Rightarrow> pkt_info
     \<Rightarrow> xdp_action \<times> xdp_stats bpf_array" where
  "filter_decision allowed_ports cidr_rules xdp_statistics info =
     (if \<not> check_port_allowed allowed_ports (dest_port info) then
        (XDP_DROP,
         update_stats xdp_statistics (packet_size info) False (is_tcp info) (is_udp info)
           (is_syslog info) (is_api info))
      else
        let ip_allowed = cidr_rules_loop cidr_rules (src_ip info) (dest_port info) 0;
            xdp_statistics' =
              update_stats xdp_statistics (packet_size info) ip_allowed (is_tcp info)
                (is_udp info) (is_syslog info) (is_api info)
        in if ip_allowed then (XDP_PASS, xdp_statistics') else (XDP_DROP, xdp_statistics'))"

text \<open>
  \<^verbatim>\<open>xdp_filter_func\<close> (lines 117-211): the verdict and the statistics map after the call.
  The two rule maps are only read.
\<close>

definition xdp_filter_func ::
  "16 word bpf_array \<Rightarrow> cidr_rule bpf_array \<Rightarrow> xdp_stats bpf_array \<Rightarrow> frame
     \<Rightarrow> xdp_action \<times> xdp_stats bpf_array" where
  "xdp_filter_func allowed_ports cidr_rules xdp_statistics pkt =
     (case parse_frame pkt of
        Inl verdict \<Rightarrow> (verdict, xdp_statistics)
      | Inr info \<Rightarrow> filter_decision allowed_ports cidr_rules xdp_statistics info)"

section \<open>Notions used in the statements\<close>

text \<open>
  The match condition of a CIDR slot in the words of the specification: the slot is
  enabled, its port is the wildcard 0 or the destination port, and the source address
  lies in the rule's network under the rule's mask.
\<close>

definition slot_matches :: "cidr_rule \<Rightarrow> 32 word \<Rightarrow> 16 word \<Rightarrow> bool" where
  "slot_matches rule saddr dport \<longleftrightarrow>
     enabled rule \<noteq> 0 \<and> (port rule = 0 \<or> port rule = dport)
       \<and> saddr AND mask_c rule = network rule AND mask_c rule"

text \<open>
  The membership condition of the Port Allow-list in the words of the specification:
  some index holds the port and no smaller index holds the sentinel 0.
\<close>

definition port_listed :: "16 word bpf_array \<Rightarrow> 16 word \<Rightarrow> bool" where
  "port_listed ports p \<longleftrightarrow> (\<exists>k<MAX_PORT_RULES. ports k = p \<and> (\<forall>j<k. ports j \<noteq> 0))"

text \<open>
  A buffer recognized as IPv4: it holds the Ethernet and the fixed IPv4 header and its
  EtherType is IPv4 (the three checks of lines 122-137 all pass).
\<close>

definition recognized_ipv4 :: "frame \<Rightarrow> bool" where
  "recognized_ipv4 pkt \<longleftrightarrow>
     sizeof_ethhdr + sizeof_iphdr \<le> length pkt \<and> eth_h_proto pkt = bpf_htons ETH_P_IP"

text \<open>
  The buffer cannot hold the declared transport header: the protocol is TCP or UDP and
  the header of that protocol, placed \<open>ihl\<close> words behind the start of the IPv4 header,
  ends behind the buffer.
\<close>

definition transport_truncated :: "frame \<Rightarrow> bool" where
  "transport_truncated pkt \<longleftrightarrow>
     (ip_protocol pkt = IPPROTO_TCP
        \<and> length pkt < sizeof_ethhdr + unat (ip_ihl pkt) * 4 + sizeof_tcphdr)
     \<or> (ip_protocol pkt = IPPROTO_UDP
        \<and> length pkt < sizeof_ethhdr + unat (ip_ihl pkt) * 4 + sizeof_udphdr)"

text \<open>
  The end of the headers of a frame: the Ethernet header, the IPv4 header of \<open>ihl\<close>
  words (at least its fixed 20 bytes) and the TCP or UDP header. A buffer too short
  for the Ethernet and the fixed IPv4 header is counted as header bytes throughout.
\<close>

definition headers_end :: "frame \<Rightarrow> nat" where
  "headers_end pkt =
     (if length pkt < sizeof_ethhdr + sizeof_iphdr then sizeof_ethhdr + sizeof_iphdr
      else max (sizeof_ethhdr + sizeof_iphdr)
             (sizeof_ethhdr + unat (ip_ihl pkt) * 4
                + (if ip_protocol pkt = IPPROTO_TCP then sizeof_tcphdr
                   else if ip_protocol pkt = IPPROTO_UDP then sizeof_udphdr else 0)))"

text \<open>
  A run of the filter on one CPU: the frames are handed to \<^verbatim>\<open>xdp_filter_func\<close> one
  after the other, each call starting from the statistics the previous one left.
\<close>

fun process_frames ::
  "16 word bpf_array \<Rightarrow> cidr_rule bpf_array \<Rightarrow> xdp_stats bpf_array \<Rightarrow> frame list
     \<Rightarrow> xdp_stats bpf_array" where
  "process_frames allowed_ports cidr_rules st [] = st"
| "process_frames allowed_ports cidr_rules st (pkt # pkts) =
     process_frames allowed_ports cidr_rules
       (snd (xdp_filter_func allowed_ports cidr_rules st pkt)) pkts"

section \<open>Example tables and frames\<close>

text \<open>
  The tables of the specification's examples: the allow-list \<open>[22, 0, \<dots>]\<close> and one
  enabled rule for 10.0.0.0/24 on any port in slot 0. Addresses are written as the
  little-endian load of their four bytes in network order.
\<close>

definition ports_example :: "16 word bpf_array" where
  "ports_example = (\<lambda>i. if i = 0 then 22 else 0)"

definition rule_disabled :: cidr_rule where
  "rule_disabled = \<lparr>network = 0, mask_c = 0, port = 0, enabled = 0, reserved = 0\<rparr>"

definition rule_net10 :: cidr_rule where
  "rule_net10 = \<lparr>network = 0x0000000A, mask_c = 0x00FFFFFF, port = 0, enabled = 1, reserved = 0\<rparr>"

definition cidr_example :: "cidr_rule bpf_array" where
  "cidr_example = (\<lambda>i. if i = 0 then rule_net10 else rule_disabled)"

definition cidr_empty :: "cidr_rule bpf_array" where
  "cidr_empty = (\<lambda>i. rule_disabled)"

definition stats_zero :: "xdp_stats bpf_array" where
  "stats_zero = (\<lambda>i. \<lparr>packets_total = 0, packets_allowed = 0, packets_blocked = 0,
     bytes_total = 0, bytes_allowed = 0, bytes_blocked = 0, tcp_packets = 0, udp_packets = 0,
     syslog_packets = 0, api_packets = 0\<rparr>)"

text \<open>A 54-byte TCP segment from 10.0.0.5 to port 22 (Ethernet, IPv4 with ihl 5, TCP).\<close>

definition frame_tcp_22 :: frame where
  "frame_tcp_22 =
     [0, 0, 0, 0, 0, 0,  0, 0, 0, 0, 0, 0,  0x08, 0x00,
      0x45, 0, 0, 40,  0, 0, 0, 0,  64, 6, 0, 0,  10, 0, 0, 5,  10, 0, 0, 1,
      0x30, 0x39, 0, 22,  0, 0, 0, 0,  0, 0, 0, 0,  0x50, 0x02, 0xFF, 0xFF,  0, 0, 0, 0]"

text \<open>A 42-byte UDP datagram from 10.0.0.5 to port 10500 (\<open>0x2904\<close>).\<close>

definition frame_udp_10500 :: frame where
  "frame_udp_10500 =
     [0, 0, 0, 0, 0, 0,  0, 0, 0, 0, 0, 0,  0x08, 0x00,
      0x45, 0, 0, 28,  0, 0, 0, 0,  64, 17, 0, 0,  10, 0, 0, 5,  10, 0, 0, 1,
      0x30, 0x39, 0x29, 0x04,  0, 8, 0, 0]"

text \<open>A 54-byte TCP segment from 10.0.0.5 to port 0.\<close>

definition frame_tcp_0 :: frame where
  "frame_tcp_0 =
     [0, 0, 0, 0, 0, 0,  0, 0, 0, 0, 0, 0,  0x08, 0x00,
      0x45, 0, 0, 40,  0, 0, 0, 0,  64, 6, 0, 0,  10, 0, 0, 5,  10, 0, 0, 1,
      0x30, 0x39, 0, 0,  0, 0, 0, 0,  0, 0, 0, 0,  0x50, 0x02, 0xFF, 0xFF,  0, 0, 0, 0]"

text \<open>A 54-byte TCP segment from 192.168.1.1 to port 22.\<close>

definition frame_tcp_22_other :: frame where
  "frame_tcp_22_other =
     [0, 0, 0, 0, 0, 0,  0, 0, 0, 0, 0, 0,  0x08, 0x00,
      0x45, 0, 0, 40,  0, 0, 0, 0,  64, 6, 0, 0,  192, 168, 1, 1,  10, 0, 0, 1,
      0x30, 0x39, 0, 22,  0, 0, 0, 0,  0, 0, 0, 0,  0x50, 0x02, 0xFF, 0xFF,  0, 0, 0, 0]"

text \<open>
  A 54-byte IPv4 frame with protocol TCP whose first IPv4 byte \<open>0x44\<close> declares a
  header of 4 words; 14 + 16 + 20 = 50 bytes would hold the TCP header it declares.
\<close>

definition frame_ihl4_tcp :: frame where
  "frame_ihl4_tcp =
     [0, 0, 0, 0, 0, 0,  0, 0, 0, 0, 0, 0,  0x08, 0x00,
      0x44, 0, 0, 40,  0, 0, 0, 0,  64, 6, 0, 0,  10, 0, 0, 5,  10, 0, 0, 1,
      0x30, 0x39, 0, 22,  0, 0, 0, 0,  0, 0, 0, 0,  0x50, 0x02, 0xFF, 0xFF,  0, 0, 0, 0]"

text \<open>A 34-byte IPv4 frame with protocol ICMP (1) that declares a header of 4 words.\<close>

definition frame_ihl4_icmp :: frame where
  "frame_ihl4_icmp =
     [0, 0, 0, 0, 0, 0,  0, 0, 0, 0, 0, 0,  0x08, 0x00,
      0x44, 0, 0, 20,  0, 0, 0, 0,  64, 1, 0, 0,  10, 0, 0, 5,  10, 0, 0, 1]"

text \<open>A 42-byte IPv4 frame with protocol ICMP (1) and a header of 5 words.\<close>

definition frame_icmp :: frame where
  "frame_icmp =
     [0, 0, 0, 0, 0, 0,  0, 0, 0, 0, 0, 0,  0x08, 0x00,
      0x45, 0, 0, 28,  0, 0, 0, 0,  64, 1, 0, 0,  10, 0, 0, 5,  10, 0, 0, 1,
      8, 0, 0, 0,  0, 1, 0, 1]"

text \<open>A 50-byte IPv4 frame with protocol TCP and a header of 5 words: 4 bytes short.\<close>

definition frame_tcp_short :: frame where
  "frame_tcp_short =
     [0, 0, 0, 0, 0, 0,  0, 0, 0, 0, 0, 0,  0x08, 0x00,
      0x45, 0, 0, 40,  0, 0, 0, 0,  64, 6, 0, 0,  10, 0, 0, 5,  10, 0, 0, 1,
      0x30, 0x39, 0, 22,  0, 0, 0, 0,  0, 0, 0, 0,  0x50, 0x02, 0xFF, 0xFF]"

text \<open>An allow-list with a port behind the sentinel: \<open>[22, 0, 443, 0, \<dots>]\<close>.\<close>

definition ports_behind_sentinel :: "16 word bpf_array" where
  "ports_behind_sentinel = (\<lambda>i. if i = 0 then 22 else if i = 2 then 443 else 0)"

section \<open>Properties\<close>

subsection \<open>The maps and the two scans\<close>

lemma bpf_map_lookup_elem_in:
  "key < max_entries \<Longrightarrow> bpf_map_lookup_elem max_entries m key = Some (m key)"
  by (simp add: bpf_map_lookup_elem_def)

lemma port_loop_step:
  "i < MAX_PORT_RULES \<Longrightarrow>
     check_port_allowed_loop ports p i =
       (if ports i = 0 then False else if ports i = p then True
        else check_port_allowed_loop ports p (i + 1))"
  by (subst check_port_allowed_loop.simps) (simp add: bpf_map_lookup_elem_in)

lemma port_loop_end: "MAX_PORT_RULES \<le> i \<Longrightarrow> \<not> check_port_allowed_loop ports p i"
  by (subst check_port_allowed_loop.simps) simp

text \<open>
  From index \<open>i\<close> on, the scan answers yes exactly for a non-zero port that some slot
  \<open>k\<close> holds with no sentinel in the slots from \<open>i\<close> up to \<open>k\<close>.
\<close>

lemma port_loop_iff:
  "check_port_allowed_loop ports p i \<longleftrightarrow>
     p \<noteq> 0 \<and> (\<exists>k. i \<le> k \<and> k < MAX_PORT_RULES \<and> ports k = p
                  \<and> (\<forall>j. i \<le> j \<and> j < k \<longrightarrow> ports j \<noteq> 0))"
proof (induction ports p i rule: check_port_allowed_loop.induct)
  case (1 ports p i)
  show ?case
  proof (cases "i < MAX_PORT_RULES")
    case False
    then show ?thesis using port_loop_end [of i ports p] by auto
  next
    case in_range: True
    show ?thesis
    proof (cases "ports i = 0")
      case True
      have "\<not> (\<exists>k. i \<le> k \<and> k < MAX_PORT_RULES \<and> ports k = p \<and> p \<noteq> 0
                  \<and> (\<forall>j. i \<le> j \<and> j < k \<longrightarrow> ports j \<noteq> 0))"
      proof
        assume "\<exists>k. i \<le> k \<and> k < MAX_PORT_RULES \<and> ports k = p \<and> p \<noteq> 0
                  \<and> (\<forall>j. i \<le> j \<and> j < k \<longrightarrow> ports j \<noteq> 0)"
        then obtain k where k: "i \<le> k" "ports k = p" "p \<noteq> 0"
          "\<forall>j. i \<le> j \<and> j < k \<longrightarrow> ports j \<noteq> 0"
          by blast
        with True have "i \<noteq> k" by auto
        with k True show False by (metis le_neq_implies_less order_refl)
      qed
      with True in_range show ?thesis by (auto simp: port_loop_step)
    next
      case nz: False
      show ?thesis
      proof (cases "ports i = p")
        case True
        with nz in_range show ?thesis
          by (auto simp: port_loop_step intro!: exI [of _ i])
      next
        case ne: False
        have IH: "check_port_allowed_loop ports p (i + 1) \<longleftrightarrow>
           p \<noteq> 0 \<and> (\<exists>k. i + 1 \<le> k \<and> k < MAX_PORT_RULES \<and> ports k = p
                        \<and> (\<forall>j. i + 1 \<le> j \<and> j < k \<longrightarrow> ports j \<noteq> 0))"
          using "1.IH" [OF in_range _ nz ne] in_range by (simp add: bpf_map_lookup_elem_in)
        have "(\<exists>k. i + 1 \<le> k \<and> k < MAX_PORT_RULES \<and> ports k = p
                    \<and> (\<forall>j. i + 1 \<le> j \<and> j < k \<longrightarrow> ports j \<noteq> 0))
          \<longleftrightarrow> (\<exists>k. i \<le> k \<and> k < MAX_PORT_RULES \<and> ports k = p
                    \<and> (\<forall>j. i \<le> j \<and> j < k \<longrightarrow> ports j \<noteq> 0))"
          (is "?L \<longleftrightarrow> ?R")
        proof
          assume ?L
          then obtain k where k: "i + 1 \<le> k" "k < MAX_PORT_RULES" "ports k = p"
            "\<forall>j. i + 1 \<le> j \<and> j < k \<longrightarrow> ports j \<noteq> 0" by blast
          have "\<forall>j. i \<le> j \<and> j < k \<longrightarrow> ports j \<noteq> 0"
          proof (intro allI impI)
            fix j assume "i \<le> j \<and> j < k"
            then show "ports j \<noteq> 0" using k(4) nz by (cases "j = i") auto
          qed
          with k show ?R by (intro exI [of _ k]) auto
        next
          assume ?R
          then obtain k where k: "i \<le> k" "k < MAX_PORT_RULES" "ports k = p"
            "\<forall>j. i \<le> j \<and> j < k \<longrightarrow> ports j \<noteq> 0" by blast
          with ne have "i \<noteq> k" by auto
          with k show ?L by (intro exI [of _ k]) auto
        qed
        with IH nz ne in_range show ?thesis by (simp add: port_loop_step)
      qed
    qed
  qed
qed

lemma check_port_allowed_iff:
  "check_port_allowed ports p \<longleftrightarrow> p \<noteq> 0 \<and> port_listed ports p"
  by (simp add: check_port_allowed_def port_loop_iff port_listed_def)

lemma cidr_loop_step:
  "i < MAX_CIDR_RULES \<Longrightarrow>
     cidr_rules_loop cidr s d i =
       (if slot_matches (cidr i) s d then True else cidr_rules_loop cidr s d (i + 1))"
  by (subst cidr_rules_loop.simps)
     (auto simp: bpf_map_lookup_elem_in slot_matches_def check_cidr_match_def Let_def)

lemma cidr_loop_end: "MAX_CIDR_RULES \<le> i \<Longrightarrow> \<not> cidr_rules_loop cidr s d i"
  by (subst cidr_rules_loop.simps) simp

lemma cidr_loop_iff:
  "cidr_rules_loop cidr s d i \<longleftrightarrow>
     (\<exists>k. i \<le> k \<and> k < MAX_CIDR_RULES \<and> slot_matches (cidr k) s d)"
proof (induction cidr s d i rule: cidr_rules_loop.induct)
  case (1 cidr s d i)
  show ?case
  proof (cases "i < MAX_CIDR_RULES")
    case False
    then show ?thesis using cidr_loop_end [of i cidr s d] by auto
  next
    case in_range: True
    show ?thesis
    proof (cases "slot_matches (cidr i) s d")
      case True
      with in_range show ?thesis by (auto simp: cidr_loop_step)
    next
      case False
      have "cidr_rules_loop cidr s d (i + 1) \<longleftrightarrow>
              (\<exists>k. i + 1 \<le> k \<and> k < MAX_CIDR_RULES \<and> slot_matches (cidr k) s d)"
      proof (cases "enabled (cidr i) = 0")
        case True
        then show ?thesis using "1.IH"(2) [OF in_range _ True] in_range
          by (simp add: bpf_map_lookup_elem_in)
      next
        case en: False
        show ?thesis
        proof (cases "port (cidr i) \<noteq> 0 \<and> port (cidr i) \<noteq> d")
          case True
          then show ?thesis using "1.IH"(3) [OF in_range _ en True] in_range
            by (simp add: bpf_map_lookup_elem_in)
        next
          case po: False
          with False en have "\<not> check_cidr_match s (cidr i)"
            by (auto simp: slot_matches_def check_cidr_match_def Let_def)
          then show ?thesis using "1.IH"(4) [OF in_range _ en po] in_range
            by (simp add: bpf_map_lookup_elem_in)
        qed
      qed
      moreover have "(\<exists>k. i + 1 \<le> k \<and> k < MAX_CIDR_RULES \<and> slot_matches (cidr k) s d)
        \<longleftrightarrow> (\<exists>k. i \<le> k \<and> k < MAX_CIDR_RULES \<and> slot_matches (cidr k) s d)"
        (is "?L \<longleftrightarrow> ?R")
      proof
        assume ?L then show ?R by (metis Suc_eq_plus1 Suc_leD)
      next
        assume ?R
        then obtain k where k: "i \<le> k" "k < MAX_CIDR_RULES" "slot_matches (cidr k) s d"
          by blast
        with False have "i \<noteq> k" by auto
        with k show ?L by (intro exI [of _ k]) auto
      qed
      ultimately show ?thesis using False in_range by (simp add: cidr_loop_step)
    qed
  qed
qed

lemma cidr_scan_iff:
  "cidr_rules_loop cidr s d 0 \<longleftrightarrow> (\<exists>k<MAX_CIDR_RULES. slot_matches (cidr k) s d)"
  by (simp add: cidr_loop_iff)

text \<open>The scan from \<open>i\<close> reads only the slots from \<open>i\<close> up to its first match.\<close>

lemma cidr_loop_prefix:
  "i \<le> m \<Longrightarrow> m < MAX_CIDR_RULES \<Longrightarrow> slot_matches (cidr m) s d \<Longrightarrow>
     \<forall>j. i \<le> j \<and> j \<le> m \<longrightarrow> cidr' j = cidr j \<Longrightarrow>
     cidr_rules_loop cidr' s d i \<and> cidr_rules_loop cidr s d i"
  by (auto simp: cidr_loop_iff)

subsection \<open>The statistics update\<close>

text \<open>
  The lookup of key 0 in a one-entry array never fails, so \<^verbatim>\<open>update_stats\<close> always
  writes: this is the counter block after the call.
\<close>

lemma update_stats_eq:
  "update_stats st sz allowed t u sy a =
     st(0 := \<lparr>packets_total = packets_total (st 0) + 1,
              packets_allowed = (if allowed then packets_allowed (st 0) + 1 else packets_allowed (st 0)),
              packets_blocked = (if allowed then packets_blocked (st 0) else packets_blocked (st 0) + 1),
              bytes_total = bytes_total (st 0) + sz,
              bytes_allowed = (if allowed then bytes_allowed (st 0) + sz else bytes_allowed (st 0)),
              bytes_blocked = (if allowed then bytes_blocked (st 0) else bytes_blocked (st 0) + sz),
              tcp_packets = (if t then tcp_packets (st 0) + 1 else tcp_packets (st 0)),
              udp_packets = (if \<not> t \<and> u then udp_packets (st 0) + 1 else udp_packets (st 0)),
              syslog_packets = (if \<not> t \<and> u \<and> sy then syslog_packets (st 0) + 1 else syslog_packets (st 0)),
              api_packets = (if t \<and> a then api_packets (st 0) + 1 else api_packets (st 0))\<rparr>)"
  by (cases "st 0") (simp add: update_stats_def bpf_map_lookup_elem_def Let_def)

lemma update_stats_neq: "update_stats st sz allowed t u sy a \<noteq> st"
proof
  assume "update_stats st sz allowed t u sy a = st"
  then have "packets_total (update_stats st sz allowed t u sy a 0) = packets_total (st 0)"
    by simp
  then show False by (simp add: update_stats_eq)
qed

subsection \<open>The decision after parsing\<close>

lemma filter_decision_port_denied:
  "\<not> check_port_allowed ports (dest_port info) \<Longrightarrow>
     filter_decision ports cidr st info =
       (XDP_DROP, update_stats st (packet_size info) False (is_tcp info) (is_udp info)
                    (is_syslog info) (is_api info))"
  by (simp add: filter_decision_def)

lemma xdp_filter_func_parsed:
  "parse_frame pkt = Inr info \<Longrightarrow>
     xdp_filter_func ports cidr st pkt = filter_decision ports cidr st info"
  by (simp add: xdp_filter_func_def)

lemma filter_decision_stats:
  "snd (filter_decision ports cidr st info) =
     update_stats st (packet_size info)
       (check_port_allowed ports (dest_port info)
          \<and> cidr_rules_loop cidr (src_ip info) (dest_port info) 0)
       (is_tcp info) (is_udp info) (is_syslog info) (is_api info)"
  by (simp add: filter_decision_def Let_def)

lemma filter_decision_verdict:
  "fst (filter_decision ports cidr st info) =
     (if check_port_allowed ports (dest_port info)
          \<and> cidr_rules_loop cidr (src_ip info) (dest_port info) 0
      then XDP_PASS else XDP_DROP)"
  by (simp add: filter_decision_def Let_def)

lemma parse_frame_tags:
  assumes "parse_frame pkt = Inr info"
  shows "is_tcp info \<longleftrightarrow> ip_protocol pkt = IPPROTO_TCP"
    and "is_udp info \<longleftrightarrow> ip_protocol pkt = IPPROTO_UDP"
    and "is_api info \<longleftrightarrow> is_tcp info \<and> dest_port info \<in> {80, 443, 8081, 8082}"
    and "is_syslog info \<longleftrightarrow> is_udp info \<and> 10000 \<le> dest_port info \<and> dest_port info \<le> 11000"
    and "\<not> (is_tcp info \<and> is_udp info)"
    and "is_tcp info \<or> is_udp info"
    and "packet_size info = of_nat (length pkt)"
  using assms
  by (auto simp: parse_frame_def Let_def IPPROTO_TCP_def IPPROTO_UDP_def split: if_splits)

subsection \<open>The parser\<close>

text \<open>The parser as one chain of tests, in the order of the source.\<close>

lemma parse_frame_cases:
  "parse_frame pkt =
     (if length pkt < sizeof_ethhdr then Inl XDP_PASS
      else if eth_h_proto pkt \<noteq> bpf_htons ETH_P_IP then Inl XDP_PASS
      else if length pkt < sizeof_ethhdr + sizeof_iphdr then Inl XDP_PASS
      else if ip_ihl pkt < 5 then Inl XDP_DROP
      else if ip_protocol pkt \<noteq> IPPROTO_TCP \<and> ip_protocol pkt \<noteq> IPPROTO_UDP then Inl XDP_PASS
      else if transport_truncated pkt then Inl XDP_DROP
      else Inr \<lparr>src_ip = ip_saddr pkt,
                dest_port = bpf_ntohs (l4_dest pkt (sizeof_ethhdr + unat (ip_ihl pkt) * 4)),
                is_tcp = (ip_protocol pkt = IPPROTO_TCP),
                is_udp = (ip_protocol pkt = IPPROTO_UDP),
                is_syslog = (ip_protocol pkt = IPPROTO_UDP
                   \<and> 10000 \<le> bpf_ntohs (l4_dest pkt (sizeof_ethhdr + unat (ip_ihl pkt) * 4))
                   \<and> bpf_ntohs (l4_dest pkt (sizeof_ethhdr + unat (ip_ihl pkt) * 4)) \<le> 11000),
                is_api = (ip_protocol pkt = IPPROTO_TCP
                   \<and> bpf_ntohs (l4_dest pkt (sizeof_ethhdr + unat (ip_ihl pkt) * 4))
                        \<in> {80, 443, 8081, 8082}),
                packet_size = of_nat (length pkt)\<rparr>)"
  by (auto simp: parse_frame_def Let_def transport_truncated_def IPPROTO_TCP_def IPPROTO_UDP_def)

lemma filter_decision_changes_stats: "snd (filter_decision ports cidr st info) \<noteq> st"
  by (simp add: filter_decision_stats update_stats_neq)

lemma xdp_filter_func_unchanged_iff:
  "snd (xdp_filter_func ports cidr st pkt) = st \<longleftrightarrow> (\<exists>v. parse_frame pkt = Inl v)"
  by (cases "parse_frame pkt") (simp_all add: xdp_filter_func_def filter_decision_changes_stats)

text \<open>The parser reads no byte behind the end of the headers.\<close>

lemma parse_frame_headers_only:
  assumes len: "length pkt' = length pkt"
    and tk: "take (headers_end pkt) pkt' = take (headers_end pkt) pkt"
  shows "parse_frame pkt' = parse_frame pkt"
proof (cases "length pkt < sizeof_ethhdr + sizeof_iphdr")
  case True
  then have "headers_end pkt = sizeof_ethhdr + sizeof_iphdr"
    by (simp add: headers_end_def)
  with tk True len have "pkt' = pkt" by simp
  then show ?thesis by simp
next
  case False
  have nth: "pkt' ! i = pkt ! i" if "i < headers_end pkt" for i
  proof -
    have "pkt' ! i = take (headers_end pkt) pkt' ! i" using that by simp
    also have "\<dots> = take (headers_end pkt) pkt ! i" by (simp only: tk)
    also have "\<dots> = pkt ! i" using that by simp
    finally show ?thesis .
  qed
  have fixed: "sizeof_ethhdr + sizeof_iphdr \<le> headers_end pkt"
    using False by (simp add: headers_end_def)
  have ihl: "ip_ihl pkt' = ip_ihl pkt"
    using fixed by (simp add: ip_ihl_def nth sizeof_ethhdr_def sizeof_iphdr_def)
  have proto: "ip_protocol pkt' = ip_protocol pkt"
    using fixed by (simp add: ip_protocol_def nth sizeof_ethhdr_def sizeof_iphdr_def)
  have eth: "eth_h_proto pkt' = eth_h_proto pkt"
    using fixed by (simp add: eth_h_proto_def load16_def nth sizeof_ethhdr_def sizeof_iphdr_def)
  have saddr: "ip_saddr pkt' = ip_saddr pkt"
    using fixed by (simp add: ip_saddr_def load32_def nth sizeof_ethhdr_def sizeof_iphdr_def)
  have trunc: "transport_truncated pkt' = transport_truncated pkt"
    by (simp add: transport_truncated_def ihl proto len)
  have dest: "l4_dest pkt' (sizeof_ethhdr + unat (ip_ihl pkt) * 4)
      = l4_dest pkt (sizeof_ethhdr + unat (ip_ihl pkt) * 4)"
    if "ip_protocol pkt = IPPROTO_TCP \<or> ip_protocol pkt = IPPROTO_UDP"
  proof -
    from that False have "sizeof_ethhdr + unat (ip_ihl pkt) * 4 + 3 < headers_end pkt"
      by (auto simp: headers_end_def sizeof_tcphdr_def sizeof_udphdr_def)
    then show ?thesis by (simp add: l4_dest_def load16_def nth)
  qed
  show ?thesis
  proof (cases "ip_protocol pkt = IPPROTO_TCP \<or> ip_protocol pkt = IPPROTO_UDP")
    case True
    show ?thesis
      unfolding parse_frame_cases [of pkt'] parse_frame_cases [of pkt]
      by (simp only: ihl proto eth saddr trunc len dest [OF True])
  next
    case False
    then show ?thesis
      unfolding parse_frame_cases [of pkt'] parse_frame_cases [of pkt]
      by (simp add: ihl proto eth len)
  qed
qed

subsection \<open>The example frames and tables, evaluated\<close>

lemmas frame_defs = parse_frame_def sizeof_ethhdr_def sizeof_iphdr_def sizeof_tcphdr_def
  sizeof_udphdr_def eth_h_proto_def load16_def load32_def bpf_htons_def bpf_ntohs_def ETH_P_IP_def
  ip_ihl_def ip_protocol_def IPPROTO_TCP_def IPPROTO_UDP_def ip_saddr_def l4_dest_def

lemma parse_frame_tcp_22:
  "parse_frame frame_tcp_22 =
     Inr \<lparr>src_ip = 0x0500000A, dest_port = 22, is_tcp = True, is_udp = False,
          is_syslog = False, is_api = False, packet_size = 54\<rparr>"
  by (simp add: frame_defs frame_tcp_22_def)

lemma parse_frame_udp_10500:
  "parse_frame frame_udp_10500 =
     Inr \<lparr>src_ip = 0x0500000A, dest_port = 10500, is_tcp = False, is_udp = True,
          is_syslog = True, is_api = False, packet_size = 42\<rparr>"
  by (simp add: frame_defs frame_udp_10500_def)

lemma parse_frame_tcp_0:
  "parse_frame frame_tcp_0 =
     Inr \<lparr>src_ip = 0x0500000A, dest_port = 0, is_tcp = True, is_udp = False,
          is_syslog = False, is_api = False, packet_size = 54\<rparr>"
  by (simp add: frame_defs frame_tcp_0_def)

lemma parse_frame_tcp_22_other:
  "parse_frame frame_tcp_22_other =
     Inr \<lparr>src_ip = 0x0101A8C0, dest_port = 22, is_tcp = True, is_udp = False,
          is_syslog = False, is_api = False, packet_size = 54\<rparr>"
  by (simp add: frame_defs frame_tcp_22_other_def)

lemma ports_example_eval:
  "check_port_allowed ports_example 22" "\<not> check_port_allowed ports_example 10500"
   "\<not> check_port_allowed ports_example 443"
  by (simp_all add: check_port_allowed_def port_loop_step MAX_PORT_RULES_def ports_example_def)

lemma cidr_example_eval:
  "cidr_rules_loop cidr_example 0x0500000A 22 0"
  by (simp add: cidr_loop_step MAX_CIDR_RULES_def cidr_example_def rule_net10_def
      slot_matches_def)

lemma frame_tcp_short_eval:
  "recognized_ipv4 frame_tcp_short" "\<not> ip_ihl frame_tcp_short < 5"
  "transport_truncated frame_tcp_short"
  by (simp_all add: recognized_ipv4_def transport_truncated_def frame_defs frame_tcp_short_def)

lemma frame_ihl4_tcp_eval:
  "recognized_ipv4 frame_ihl4_tcp" "ip_ihl frame_ihl4_tcp < 5"
  by (simp_all add: recognized_ipv4_def frame_defs frame_ihl4_tcp_def)

lemma frame_tcp_22_eval:
  "recognized_ipv4 frame_tcp_22" "\<not> ip_ihl frame_tcp_22 < 5"
  "\<not> transport_truncated frame_tcp_22"
  by (simp_all add: recognized_ipv4_def transport_truncated_def frame_defs frame_tcp_22_def)

lemma frame_icmp_eval:
  "5 \<le> ip_ihl frame_icmp" "ip_protocol frame_icmp \<noteq> IPPROTO_TCP"
  "ip_protocol frame_icmp \<noteq> IPPROTO_UDP"
  by (simp_all add: frame_defs frame_icmp_def)

lemma headers_end_tcp_22: "headers_end (frame_tcp_22 @ [1, 2, 3]) = 54"
  by (simp add: headers_end_def frame_defs frame_tcp_22_def)

subsection \<open>A run of frames\<close>

lemma process_frames_counters:
  assumes "\<forall>pkt\<in>set pkts. \<exists>info. parse_frame pkt = Inr info"
  shows "packets_total (process_frames ports cidr st pkts 0)
           = packets_total (st 0) + of_nat (length pkts)
         \<and> packets_allowed (process_frames ports cidr st pkts 0)
             + packets_blocked (process_frames ports cidr st pkts 0)
           = packets_allowed (st 0) + packets_blocked (st 0) + of_nat (length pkts)
         \<and> bytes_allowed (process_frames ports cidr st pkts 0)
             + bytes_blocked (process_frames ports cidr st pkts 0)
             - bytes_total (process_frames ports cidr st pkts 0)
           = bytes_allowed (st 0) + bytes_blocked (st 0) - bytes_total (st 0)"
  using assms
proof (induction pkts arbitrary: st)
  case Nil
  then show ?case by simp
next
  case (Cons pkt pkts)
  then obtain info where info: "parse_frame pkt = Inr info" by auto
  let ?st = "snd (xdp_filter_func ports cidr st pkt)"
  have step: "packets_total (?st 0) = packets_total (st 0) + 1"
    "packets_allowed (?st 0) + packets_blocked (?st 0)
       = packets_allowed (st 0) + packets_blocked (st 0) + 1"
    "bytes_allowed (?st 0) + bytes_blocked (?st 0) - bytes_total (?st 0)
       = bytes_allowed (st 0) + bytes_blocked (st 0) - bytes_total (st 0)"
    by (simp_all add: xdp_filter_func_parsed [OF info] filter_decision_stats update_stats_eq)
  from Cons.prems have "\<forall>pkt\<in>set pkts. \<exists>info. parse_frame pkt = Inr info" by simp
  from Cons.IH [OF this, of ?st] show ?case
    by (simp add: step)
qed

section \<open>Claims\<close>

text \<open>
  C1 (default deny). A well-formed IPv4 TCP or UDP frame whose destination port the
  Port Allow-list does not allow gets the verdict DROP, \<open>packets_blocked\<close> grows by
  exactly 1, and the whole result is the same for every content of the CIDR Rule Table.
\<close>

theorem default_deny:
  "parse_frame pkt = Inr info \<Longrightarrow> \<not> check_port_allowed allowed_ports (dest_port info) \<Longrightarrow>
     fst (xdp_filter_func allowed_ports cidr_rules st pkt) = XDP_DROP
     \<and> packets_blocked (snd (xdp_filter_func allowed_ports cidr_rules st pkt) 0)
         = packets_blocked (st 0) + 1
     \<and> xdp_filter_func allowed_ports cidr_rules' st pkt
         = xdp_filter_func allowed_ports cidr_rules st pkt"
  by (simp add: xdp_filter_func_parsed filter_decision_port_denied update_stats_eq)

theorem default_deny_witness:
  "fst (xdp_filter_func ports_example cidr_example stats_zero frame_udp_10500) = XDP_DROP
   \<and> packets_blocked (snd (xdp_filter_func ports_example cidr_example stats_zero frame_udp_10500) 0) = 1
   \<and> xdp_filter_func ports_example cidr_empty stats_zero frame_udp_10500
       = xdp_filter_func ports_example cidr_example stats_zero frame_udp_10500"
  using default_deny [OF parse_frame_udp_10500, of ports_example cidr_example stats_zero cidr_empty]
    ports_example_eval(2)
  by (simp add: stats_zero_def)

text \<open>
  C10. Port 0 is never allowed, whatever the Port Allow-list holds, since 0 is the
  end-of-list sentinel; a well-formed IPv4 TCP or UDP frame to port 0 is dropped at the
  port gate and counted as blocked.
\<close>

theorem port_zero_never_allowed:
  "\<not> check_port_allowed allowed_ports 0
   \<and> (parse_frame pkt = Inr info \<and> dest_port info = 0 \<longrightarrow>
        fst (xdp_filter_func allowed_ports cidr_rules st pkt) = XDP_DROP
        \<and> packets_blocked (snd (xdp_filter_func allowed_ports cidr_rules st pkt) 0)
            = packets_blocked (st 0) + 1)"
proof -
  have no: "\<not> check_port_allowed allowed_ports 0"
    by (simp add: check_port_allowed_iff)
  then show ?thesis
    by (auto simp: xdp_filter_func_parsed filter_decision_port_denied update_stats_eq)
qed

theorem port_zero_never_allowed_witness:
  "\<not> check_port_allowed (\<lambda>i. 0) 0
   \<and> fst (xdp_filter_func (\<lambda>i. 0) cidr_example stats_zero frame_tcp_0) = XDP_DROP
   \<and> packets_blocked (snd (xdp_filter_func (\<lambda>i. 0) cidr_example stats_zero frame_tcp_0) 0) = 1"
  using port_zero_never_allowed [of "\<lambda>i. 0" frame_tcp_0
      "\<lparr>src_ip = 0x0500000A, dest_port = 0, is_tcp = True, is_udp = False,
        is_syslog = False, is_api = False, packet_size = 54\<rparr>" cidr_example stats_zero]
    parse_frame_tcp_0
  by (simp add: stats_zero_def)

text \<open>
  C6 as worded: \<^verbatim>\<open>check_port_allowed\<close> answers yes iff some index \<open>k\<close> holds the port
  and no index below \<open>k\<close> holds 0. For port 0 and a list that starts with the sentinel
  the right-hand side holds at \<open>k = 0\<close>, and the scan answers no.
\<close>

theorem sentinel_scan_literal_counterexample:
  "port_listed (\<lambda>i. 0) 0 \<and> \<not> check_port_allowed (\<lambda>i. 0) 0"
proof
  show "port_listed (\<lambda>i. 0) 0"
    unfolding port_listed_def MAX_PORT_RULES_def by (rule exI [of _ 0]) simp
  show "\<not> check_port_allowed (\<lambda>i. 0) 0"
    by (simp add: check_port_allowed_def port_loop_step MAX_PORT_RULES_def)
qed

text \<open>
  C6, amended for port 0. \<^verbatim>\<open>check_port_allowed\<close> answers yes iff the port is not 0 and
  some index \<open>k < 64\<close> holds it with no 0 at an index below \<open>k\<close>. A 0 at index \<open>k\<close>
  hides every slot above \<open>k\<close>: two lists that agree up to \<open>k\<close> give the same answer.
  Only the slots below 64 are ever read: two lists that agree there give the same answer.
\<close>

theorem check_port_allowed_sentinel_scan:
  "(check_port_allowed ports p \<longleftrightarrow>
      p \<noteq> 0 \<and> (\<exists>k<64. ports k = p \<and> (\<forall>j<k. ports j \<noteq> 0)))
   \<and> (k < 64 \<and> ports k = 0 \<and> (\<forall>j\<le>k. ports' j = ports j) \<longrightarrow>
        check_port_allowed ports' p = check_port_allowed ports p)
   \<and> ((\<forall>j<64. ports' j = ports j) \<longrightarrow>
        check_port_allowed ports' p = check_port_allowed ports p)"
proof (intro conjI impI)
  show "check_port_allowed ports p \<longleftrightarrow>
      p \<noteq> 0 \<and> (\<exists>k<64. ports k = p \<and> (\<forall>j<k. ports j \<noteq> 0))"
    by (simp add: check_port_allowed_iff port_listed_def MAX_PORT_RULES_def)
next
  assume a: "k < 64 \<and> ports k = 0 \<and> (\<forall>j\<le>k. ports' j = ports j)"
  have "port_listed ports' p \<and> p \<noteq> 0 \<longleftrightarrow> port_listed ports p \<and> p \<noteq> 0"
  proof -
    { fix A B :: "16 word bpf_array"
      assume ab: "\<forall>j\<le>k. A j = B j" and z: "B k = 0" and l: "port_listed A p" and nz: "p \<noteq> 0"
      from l obtain m where m: "m < MAX_PORT_RULES" "A m = p" "\<forall>j<m. A j \<noteq> 0"
        by (auto simp: port_listed_def)
      have "m \<le> k"
      proof (rule ccontr)
        assume "\<not> m \<le> k"
        then have "k < m" by simp
        with m(3) have "A k \<noteq> 0" by simp
        with ab z show False by simp
      qed
      with ab m have "B m = p" "\<forall>j<m. B j \<noteq> 0" by auto
      with m(1) have "port_listed B p" by (auto simp: port_listed_def)
    } note dir = this
    from a have a': "\<forall>j\<le>k. ports j = ports' j" "ports' k = 0" by auto
    show ?thesis using dir [of ports' ports] dir [of ports ports'] a a' by blast
  qed
  then show "check_port_allowed ports' p = check_port_allowed ports p"
    by (auto simp: check_port_allowed_iff)
next
  assume "\<forall>j<64. ports' j = ports j"
  then have "port_listed ports' p = port_listed ports p"
    by (auto simp: port_listed_def MAX_PORT_RULES_def)
  then show "check_port_allowed ports' p = check_port_allowed ports p"
    by (simp add: check_port_allowed_iff)
qed

theorem check_port_allowed_sentinel_scan_witness:
  "check_port_allowed ports_behind_sentinel 22
   \<and> \<not> check_port_allowed ports_behind_sentinel 443
   \<and> check_port_allowed ports_behind_sentinel 443 = check_port_allowed ports_example 443"
proof -
  have same: "1 < (64::nat) \<and> ports_example 1 = 0 \<and> (\<forall>j\<le>1. ports_behind_sentinel j = ports_example j)"
    by (simp add: ports_example_def ports_behind_sentinel_def)
  have "check_port_allowed ports_behind_sentinel 443 = check_port_allowed ports_example 443"
    using check_port_allowed_sentinel_scan [of ports_example 443 1 ports_behind_sentinel] same
    by blast
  moreover have "check_port_allowed ports_behind_sentinel 22"
    by (simp add: check_port_allowed_def port_loop_step MAX_PORT_RULES_def ports_behind_sentinel_def)
  ultimately show ?thesis using ports_example_eval(3) by simp
qed

text \<open>
  C8 as worded: \<open>udp_packets\<close> (and \<open>syslog_packets\<close>) grow whenever \<open>is_udp\<close> is
  set. With \<open>is_tcp\<close> and \<open>is_udp\<close> both set the \<^verbatim>\<open>else if\<close> branch is not taken
  and neither counter moves.
\<close>

theorem update_stats_udp_counterexample:
  "udp_packets (update_stats stats_zero 60 True True True True True 0)
     \<noteq> udp_packets (stats_zero 0) + 1
   \<and> syslog_packets (update_stats stats_zero 60 True True True True True 0)
     \<noteq> syslog_packets (stats_zero 0) + 1"
  by (simp add: update_stats_eq stats_zero_def)

text \<open>
  C8, amended: the UDP counters belong to the \<^verbatim>\<open>else\<close> branch of the TCP test. For all
  arguments \<^verbatim>\<open>update_stats\<close> adds 1 to \<open>packets_total\<close> and the size to
  \<open>bytes_total\<close>; 1 and the size to the allowed pair when \<open>allowed\<close>, to the blocked
  pair otherwise; 1 to \<open>tcp_packets\<close> when \<open>is_tcp\<close>, and then 1 to \<open>api_packets\<close>
  when \<open>is_api\<close>; 1 to \<open>udp_packets\<close> when \<open>is_udp\<close> and not \<open>is_tcp\<close>, and then 1
  to \<open>syslog_packets\<close> when \<open>is_syslog\<close>. These are all ten counters, so nothing else
  changes.
\<close>

theorem update_stats_counters:
  "packets_total (update_stats st sz allowed t u sy a 0) = packets_total (st 0) + 1
   \<and> bytes_total (update_stats st sz allowed t u sy a 0) = bytes_total (st 0) + sz
   \<and> packets_allowed (update_stats st sz allowed t u sy a 0)
       = (if allowed then packets_allowed (st 0) + 1 else packets_allowed (st 0))
   \<and> bytes_allowed (update_stats st sz allowed t u sy a 0)
       = (if allowed then bytes_allowed (st 0) + sz else bytes_allowed (st 0))
   \<and> packets_blocked (update_stats st sz allowed t u sy a 0)
       = (if allowed then packets_blocked (st 0) else packets_blocked (st 0) + 1)
   \<and> bytes_blocked (update_stats st sz allowed t u sy a 0)
       = (if allowed then bytes_blocked (st 0) else bytes_blocked (st 0) + sz)
   \<and> tcp_packets (update_stats st sz allowed t u sy a 0)
       = (if t then tcp_packets (st 0) + 1 else tcp_packets (st 0))
   \<and> api_packets (update_stats st sz allowed t u sy a 0)
       = (if t \<and> a then api_packets (st 0) + 1 else api_packets (st 0))
   \<and> udp_packets (update_stats st sz allowed t u sy a 0)
       = (if u \<and> \<not> t then udp_packets (st 0) + 1 else udp_packets (st 0))
   \<and> syslog_packets (update_stats st sz allowed t u sy a 0)
       = (if u \<and> \<not> t \<and> sy then syslog_packets (st 0) + 1 else syslog_packets (st 0))
   \<and> (\<forall>k. k \<noteq> 0 \<longrightarrow> update_stats st sz allowed t u sy a k = st k)"
  by (simp add: update_stats_eq)

theorem update_stats_counters_witness:
  "packets_total (update_stats stats_zero 42 False False True True False 0) = 1
   \<and> bytes_total (update_stats stats_zero 42 False False True True False 0) = 42
   \<and> packets_allowed (update_stats stats_zero 42 False False True True False 0) = 0
   \<and> bytes_allowed (update_stats stats_zero 42 False False True True False 0) = 0
   \<and> packets_blocked (update_stats stats_zero 42 False False True True False 0) = 1
   \<and> bytes_blocked (update_stats stats_zero 42 False False True True False 0) = 42
   \<and> tcp_packets (update_stats stats_zero 42 False False True True False 0) = 0
   \<and> api_packets (update_stats stats_zero 42 False False True True False 0) = 0
   \<and> udp_packets (update_stats stats_zero 42 False False True True False 0) = 1
   \<and> syslog_packets (update_stats stats_zero 42 False False True True False 0) = 1
   \<and> update_stats stats_zero 42 False False True True False 1 = stats_zero 1"
  using update_stats_counters [of stats_zero 42 False False True True False]
  by (simp add: stats_zero_def)

text \<open>
  C7. For a well-formed IPv4 TCP or UDP frame the parser sets \<open>is_api\<close> exactly for TCP
  to port 80, 443, 8081 or 8082, and \<open>is_syslog\<close> exactly for UDP to a port from 10000
  to 11000. The verdict is the same whatever the two tags are set to, and a tagged
  frame's \<open>syslog_packets\<close> or \<open>api_packets\<close> counter grows by 1 whatever the verdict.
\<close>

theorem traffic_tags:
  "parse_frame pkt = Inr info \<Longrightarrow>
     (is_api info \<longleftrightarrow> ip_protocol pkt = IPPROTO_TCP \<and> dest_port info \<in> {80, 443, 8081, 8082})
     \<and> (is_syslog info \<longleftrightarrow>
          ip_protocol pkt = IPPROTO_UDP \<and> 10000 \<le> dest_port info \<and> dest_port info \<le> 11000)
     \<and> fst (filter_decision allowed_ports cidr_rules st (info\<lparr>is_syslog := sy, is_api := a\<rparr>))
         = fst (xdp_filter_func allowed_ports cidr_rules st pkt)
     \<and> (is_syslog info \<longrightarrow>
          syslog_packets (snd (xdp_filter_func allowed_ports cidr_rules st pkt) 0)
            = syslog_packets (st 0) + 1)
     \<and> (is_api info \<longrightarrow>
          api_packets (snd (xdp_filter_func allowed_ports cidr_rules st pkt) 0)
            = api_packets (st 0) + 1)"
  using parse_frame_tags [of pkt info]
  by (auto simp: xdp_filter_func_parsed filter_decision_verdict filter_decision_stats
      update_stats_eq)

theorem traffic_tags_witness:
  "ip_protocol frame_udp_10500 = IPPROTO_UDP
   \<and> fst (xdp_filter_func ports_example cidr_example stats_zero frame_udp_10500) = XDP_DROP
   \<and> fst (filter_decision ports_example cidr_example stats_zero
        \<lparr>src_ip = 0x0500000A, dest_port = 10500, is_tcp = False, is_udp = True,
          is_syslog = False, is_api = True, packet_size = 42\<rparr>) = XDP_DROP
   \<and> syslog_packets (snd (xdp_filter_func ports_example cidr_example stats_zero frame_udp_10500) 0) = 1"
  using traffic_tags [OF parse_frame_udp_10500, of ports_example cidr_example stats_zero False True]
    ports_example_eval(2)
  by (simp add: stats_zero_def xdp_filter_func_parsed [OF parse_frame_udp_10500]
      filter_decision_verdict)

text \<open>
  C4 (statistics conservation). After a run of \<open>N\<close> well-formed IPv4 TCP or UDP frames
  from zeroed statistics, \<open>packets_total\<close> is \<open>N\<close> (as a 64-bit counter, and as a
  number while \<open>N < 2\<^sup>6\<^sup>4\<close>), \<open>packets_allowed + packets_blocked = packets_total\<close> and
  \<open>bytes_allowed + bytes_blocked = bytes_total\<close>. Every statistics update adds 1 to
  \<open>packets_total\<close> and to exactly one of \<open>packets_allowed\<close> and \<open>packets_blocked\<close>.
\<close>

theorem statistics_conservation:
  "((\<forall>pkt\<in>set pkts. \<exists>info. parse_frame pkt = Inr info) \<and> st 0 = stats_zero 0 \<longrightarrow>
      packets_total (process_frames allowed_ports cidr_rules st pkts 0) = of_nat (length pkts)
      \<and> (length pkts < 2 ^ 64 \<longrightarrow>
           unat (packets_total (process_frames allowed_ports cidr_rules st pkts 0))
             = length pkts)
      \<and> packets_allowed (process_frames allowed_ports cidr_rules st pkts 0)
          + packets_blocked (process_frames allowed_ports cidr_rules st pkts 0)
        = packets_total (process_frames allowed_ports cidr_rules st pkts 0)
      \<and> bytes_allowed (process_frames allowed_ports cidr_rules st pkts 0)
          + bytes_blocked (process_frames allowed_ports cidr_rules st pkts 0)
        = bytes_total (process_frames allowed_ports cidr_rules st pkts 0))
   \<and> packets_total (update_stats st' sz allowed t u sy a 0) = packets_total (st' 0) + 1
   \<and> (allowed \<longrightarrow>
        packets_allowed (update_stats st' sz allowed t u sy a 0) = packets_allowed (st' 0) + 1
        \<and> packets_blocked (update_stats st' sz allowed t u sy a 0) = packets_blocked (st' 0))
   \<and> (\<not> allowed \<longrightarrow>
        packets_blocked (update_stats st' sz allowed t u sy a 0) = packets_blocked (st' 0) + 1
        \<and> packets_allowed (update_stats st' sz allowed t u sy a 0) = packets_allowed (st' 0))"
proof (intro conjI impI; (elim conjE)?)
  let ?s = "process_frames allowed_ports cidr_rules st pkts 0"
  assume wf: "\<forall>pkt\<in>set pkts. \<exists>info. parse_frame pkt = Inr info" and z: "st 0 = stats_zero 0"
  from process_frames_counters [OF wf, of allowed_ports cidr_rules st] z
  have t: "packets_total ?s = of_nat (length pkts)"
    and p: "packets_allowed ?s + packets_blocked ?s = of_nat (length pkts)"
    and b: "bytes_allowed ?s + bytes_blocked ?s - bytes_total ?s = 0"
    by (simp_all add: stats_zero_def)
  show "packets_total ?s = of_nat (length pkts)" by (rule t)
  show "packets_allowed ?s + packets_blocked ?s = packets_total ?s" using t p by simp
  show "bytes_allowed ?s + bytes_blocked ?s = bytes_total ?s" using b by simp
  show "unat (packets_total ?s) = length pkts" if "length pkts < 2 ^ 64"
    using t that by (simp add: unat_of_nat)
qed (simp_all add: update_stats_eq)

theorem statistics_conservation_witness:
  "packets_total (process_frames ports_example cidr_example stats_zero
       [frame_tcp_22, frame_udp_10500] 0) = 2
   \<and> unat (packets_total (process_frames ports_example cidr_example stats_zero
       [frame_tcp_22, frame_udp_10500] 0)) = 2
   \<and> packets_allowed (process_frames ports_example cidr_example stats_zero
       [frame_tcp_22, frame_udp_10500] 0) = 1
   \<and> packets_blocked (process_frames ports_example cidr_example stats_zero
       [frame_tcp_22, frame_udp_10500] 0) = 1
   \<and> bytes_allowed (process_frames ports_example cidr_example stats_zero
       [frame_tcp_22, frame_udp_10500] 0) = 54
   \<and> bytes_blocked (process_frames ports_example cidr_example stats_zero
       [frame_tcp_22, frame_udp_10500] 0) = 42
   \<and> bytes_total (process_frames ports_example cidr_example stats_zero
       [frame_tcp_22, frame_udp_10500] 0) = 96"
proof -
  let ?s = "process_frames ports_example cidr_example stats_zero
       [frame_tcp_22, frame_udp_10500] 0"
  have wf: "\<forall>pkt\<in>set [frame_tcp_22, frame_udp_10500]. \<exists>info. parse_frame pkt = Inr info"
    by (simp add: parse_frame_tcp_22 parse_frame_udp_10500)
  have len: "length [frame_tcp_22, frame_udp_10500] < 2 ^ 64" by simp
  from statistics_conservation [of "[frame_tcp_22, frame_udp_10500]" stats_zero
      ports_example cidr_example] wf len
  have cons: "packets_total ?s = 2" "unat (packets_total ?s) = 2"
     "packets_allowed ?s + packets_blocked ?s = packets_total ?s"
     "bytes_allowed ?s + bytes_blocked ?s = bytes_total ?s"
    by simp_all
  have a: "packets_allowed ?s = 1" "bytes_allowed ?s = 54" "bytes_blocked ?s = 42"
    by (simp_all add: xdp_filter_func_parsed [OF parse_frame_tcp_22]
        xdp_filter_func_parsed [OF parse_frame_udp_10500] filter_decision_stats
        ports_example_eval cidr_example_eval update_stats_eq stats_zero_def)
  from cons a show ?thesis by simp
qed

text \<open>
  C2 (CIDR scan, first match wins). For a well-formed IPv4 TCP or UDP frame that passed
  the port gate: at every slot below 1024 the scan stops with a match exactly when the
  slot is enabled, its port is 0 or the destination port, and the masked source address
  equals the masked network, and goes on to the next slot otherwise; the verdict is PASS
  iff some slot matches and DROP if none does; and with \<open>m\<close> the lowest matching slot,
  the verdict and the statistics are the same for every table that agrees up to \<open>m\<close>,
  whatever it holds above.
\<close>

theorem cidr_first_match:
  "parse_frame pkt = Inr info \<and> check_port_allowed allowed_ports (dest_port info) \<longrightarrow>
     (\<forall>i<1024. cidr_rules_loop cidr_rules (src_ip info) (dest_port info) i
        = (slot_matches (cidr_rules i) (src_ip info) (dest_port info)
           \<or> cidr_rules_loop cidr_rules (src_ip info) (dest_port info) (i + 1)))
     \<and> (fst (xdp_filter_func allowed_ports cidr_rules st pkt) = XDP_PASS
          \<longleftrightarrow> (\<exists>i<1024. slot_matches (cidr_rules i) (src_ip info) (dest_port info)))
     \<and> ((\<forall>i<1024. \<not> slot_matches (cidr_rules i) (src_ip info) (dest_port info)) \<longrightarrow>
          fst (xdp_filter_func allowed_ports cidr_rules st pkt) = XDP_DROP)
     \<and> (m < 1024 \<and> slot_matches (cidr_rules m) (src_ip info) (dest_port info)
          \<and> (\<forall>j<m. \<not> slot_matches (cidr_rules j) (src_ip info) (dest_port info))
          \<and> (\<forall>j\<le>m. cidr_rules' j = cidr_rules j) \<longrightarrow>
          fst (xdp_filter_func allowed_ports cidr_rules st pkt) = XDP_PASS
          \<and> xdp_filter_func allowed_ports cidr_rules' st pkt
              = xdp_filter_func allowed_ports cidr_rules st pkt)"
proof (intro impI, elim conjE)
  assume p: "parse_frame pkt = Inr info"
    and ok: "check_port_allowed allowed_ports (dest_port info)"
  let ?s = "src_ip info" and ?d = "dest_port info"
  have verdict: "fst (xdp_filter_func allowed_ports c st pkt) =
      (if \<exists>i<1024. slot_matches (c i) ?s ?d then XDP_PASS else XDP_DROP)" for c
    using ok
    by (simp add: xdp_filter_func_parsed [OF p] filter_decision_verdict cidr_scan_iff
        MAX_CIDR_RULES_def)
  have step: "\<forall>i<1024. cidr_rules_loop cidr_rules ?s ?d i
        = (slot_matches (cidr_rules i) ?s ?d \<or> cidr_rules_loop cidr_rules ?s ?d (i + 1))"
    by (simp add: cidr_loop_step MAX_CIDR_RULES_def)
  have pass: "fst (xdp_filter_func allowed_ports cidr_rules st pkt) = XDP_PASS
          \<longleftrightarrow> (\<exists>i<1024. slot_matches (cidr_rules i) ?s ?d)"
    by (simp add: verdict)
  have drop: "(\<forall>i<1024. \<not> slot_matches (cidr_rules i) ?s ?d) \<longrightarrow>
          fst (xdp_filter_func allowed_ports cidr_rules st pkt) = XDP_DROP"
    by (auto simp: verdict)
  have first: "fst (xdp_filter_func allowed_ports cidr_rules st pkt) = XDP_PASS
          \<and> xdp_filter_func allowed_ports cidr_rules' st pkt
              = xdp_filter_func allowed_ports cidr_rules st pkt"
    if h: "m < 1024 \<and> slot_matches (cidr_rules m) ?s ?d
          \<and> (\<forall>j<m. \<not> slot_matches (cidr_rules j) ?s ?d)
          \<and> (\<forall>j\<le>m. cidr_rules' j = cidr_rules j)"
  proof -
    from h have "cidr_rules_loop cidr_rules' ?s ?d 0 \<and> cidr_rules_loop cidr_rules ?s ?d 0"
      by (intro cidr_loop_prefix [of 0 m]) (auto simp: MAX_CIDR_RULES_def)
    then show ?thesis
      using ok by (simp add: xdp_filter_func_parsed [OF p] filter_decision_def)
  qed
  from step pass drop first
  show "(\<forall>i<1024. cidr_rules_loop cidr_rules ?s ?d i
        = (slot_matches (cidr_rules i) ?s ?d \<or> cidr_rules_loop cidr_rules ?s ?d (i + 1)))
     \<and> (fst (xdp_filter_func allowed_ports cidr_rules st pkt) = XDP_PASS
          \<longleftrightarrow> (\<exists>i<1024. slot_matches (cidr_rules i) ?s ?d))
     \<and> ((\<forall>i<1024. \<not> slot_matches (cidr_rules i) ?s ?d) \<longrightarrow>
          fst (xdp_filter_func allowed_ports cidr_rules st pkt) = XDP_DROP)
     \<and> (m < 1024 \<and> slot_matches (cidr_rules m) ?s ?d
          \<and> (\<forall>j<m. \<not> slot_matches (cidr_rules j) ?s ?d)
          \<and> (\<forall>j\<le>m. cidr_rules' j = cidr_rules j) \<longrightarrow>
          fst (xdp_filter_func allowed_ports cidr_rules st pkt) = XDP_PASS
          \<and> xdp_filter_func allowed_ports cidr_rules' st pkt
              = xdp_filter_func allowed_ports cidr_rules st pkt)"
    by blast
qed

theorem cidr_first_match_witness:
  "fst (xdp_filter_func ports_example cidr_example stats_zero frame_tcp_22) = XDP_PASS
   \<and> xdp_filter_func ports_example (\<lambda>i. rule_net10) stats_zero frame_tcp_22
     = xdp_filter_func ports_example cidr_example stats_zero frame_tcp_22
   \<and> fst (xdp_filter_func ports_example cidr_example stats_zero frame_tcp_22_other) = XDP_DROP"
proof -
  let ?near = "\<lparr>src_ip = 0x0500000A, dest_port = 22, is_tcp = True, is_udp = False,
        is_syslog = False, is_api = False, packet_size = 54\<rparr>"
  let ?far = "\<lparr>src_ip = 0x0101A8C0, dest_port = 22, is_tcp = True, is_udp = False,
        is_syslog = False, is_api = False, packet_size = 54\<rparr>"
  have gate: "parse_frame frame_tcp_22 = Inr ?near
      \<and> check_port_allowed ports_example (dest_port ?near)"
    using parse_frame_tcp_22 ports_example_eval(1) by simp
  have lowest: "(0::nat) < 1024 \<and> slot_matches (cidr_example 0) (src_ip ?near) (dest_port ?near)
      \<and> (\<forall>j<0. \<not> slot_matches (cidr_example j) (src_ip ?near) (dest_port ?near))
      \<and> (\<forall>j\<le>0. rule_net10 = cidr_example j)"
    by (simp add: cidr_example_def rule_net10_def slot_matches_def)
  note near = cidr_first_match [of frame_tcp_22 ?near ports_example cidr_example stats_zero 0
      "\<lambda>i. rule_net10", THEN mp, OF gate]
  note a = near [THEN conjunct2, THEN conjunct2, THEN conjunct2, THEN mp, OF lowest]
  have gate': "parse_frame frame_tcp_22_other = Inr ?far
      \<and> check_port_allowed ports_example (dest_port ?far)"
    using parse_frame_tcp_22_other ports_example_eval(1) by simp
  have none: "\<forall>i<1024. \<not> slot_matches (cidr_example i) (src_ip ?far) (dest_port ?far)"
    by (simp add: cidr_example_def rule_net10_def rule_disabled_def slot_matches_def)
  note far = cidr_first_match [of frame_tcp_22_other ?far ports_example cidr_example
      stats_zero, THEN mp, OF gate']
  note b = far [THEN conjunct2, THEN conjunct2, THEN conjunct1, THEN mp, OF none]
  from a b show ?thesis by simp
qed

text \<open>
  C3 as worded, with 4 words as the minimum header length: a 54-byte IPv4 TCP frame
  that declares a 4-word header is not below that minimum and holds the TCP header it
  declares, and still it is dropped without a statistics update.
\<close>

theorem malformed_literal_counterexample:
  "recognized_ipv4 frame_ihl4_tcp \<and> \<not> unat (ip_ihl frame_ihl4_tcp) < 4
   \<and> \<not> transport_truncated frame_ihl4_tcp
   \<and> xdp_filter_func ports_example cidr_example stats_zero frame_ihl4_tcp
       = (XDP_DROP, stats_zero)"
  by (simp add: recognized_ipv4_def transport_truncated_def xdp_filter_func_def frame_defs
      frame_ihl4_tcp_def)

text \<open>
  C3, amended to the minimum of 5 words that line 140 tests. A buffer recognized as
  IPv4 is dropped with the statistics untouched exactly when its declared header length
  is below 5 words or it cannot hold the TCP or UDP header it declares; these are the
  two \<^verbatim>\<open>return XDP_DROP\<close> of the parser.
\<close>

theorem malformed_drop:
  "recognized_ipv4 pkt \<longrightarrow>
     (xdp_filter_func allowed_ports cidr_rules st pkt = (XDP_DROP, st)
        \<longleftrightarrow> ip_ihl pkt < 5 \<or> transport_truncated pkt)
     \<and> (parse_frame pkt = Inl XDP_DROP \<longleftrightarrow> ip_ihl pkt < 5 \<or> transport_truncated pkt)"
proof
  assume r: "recognized_ipv4 pkt"
  have p: "parse_frame pkt = Inl XDP_DROP \<longleftrightarrow> ip_ihl pkt < 5 \<or> transport_truncated pkt"
    using r
    by (auto simp: parse_frame_cases recognized_ipv4_def transport_truncated_def)
  have "xdp_filter_func allowed_ports cidr_rules st pkt = (XDP_DROP, st)
      \<longleftrightarrow> parse_frame pkt = Inl XDP_DROP"
  proof (cases "parse_frame pkt")
    case (Inl v)
    then show ?thesis by (simp add: xdp_filter_func_def)
  next
    case (Inr info)
    have "snd (xdp_filter_func allowed_ports cidr_rules st pkt) \<noteq> st"
      using Inr by (simp add: xdp_filter_func_unchanged_iff)
    then have "xdp_filter_func allowed_ports cidr_rules st pkt \<noteq> (XDP_DROP, st)"
      by (metis snd_conv)
    with Inr show ?thesis by simp
  qed
  with p show "(xdp_filter_func allowed_ports cidr_rules st pkt = (XDP_DROP, st)
        \<longleftrightarrow> ip_ihl pkt < 5 \<or> transport_truncated pkt)
     \<and> (parse_frame pkt = Inl XDP_DROP \<longleftrightarrow> ip_ihl pkt < 5 \<or> transport_truncated pkt)"
    by simp
qed

theorem malformed_drop_witness:
  "xdp_filter_func ports_example cidr_example stats_zero frame_tcp_short = (XDP_DROP, stats_zero)
   \<and> xdp_filter_func ports_example cidr_example stats_zero frame_ihl4_tcp = (XDP_DROP, stats_zero)
   \<and> xdp_filter_func ports_example cidr_example stats_zero frame_tcp_22 \<noteq> (XDP_DROP, stats_zero)"
  using malformed_drop [of frame_tcp_short ports_example cidr_example stats_zero]
    malformed_drop [of frame_ihl4_tcp ports_example cidr_example stats_zero]
    malformed_drop [of frame_tcp_22 ports_example cidr_example stats_zero]
    frame_tcp_short_eval frame_ihl4_tcp_eval frame_tcp_22_eval
  by simp

text \<open>
  C5 as worded: every frame whose IP protocol is neither TCP nor UDP passes. An ICMP
  frame that declares a 4-word IPv4 header is dropped by the header-length test, which
  comes before the protocol test.
\<close>

theorem pass_through_literal_counterexample:
  "ip_protocol frame_ihl4_icmp \<noteq> IPPROTO_TCP \<and> ip_protocol frame_ihl4_icmp \<noteq> IPPROTO_UDP
   \<and> xdp_filter_func ports_example cidr_example stats_zero frame_ihl4_icmp
       = (XDP_DROP, stats_zero)"
  by (simp add: xdp_filter_func_def frame_defs frame_ihl4_icmp_def)

text \<open>
  C5, amended: a frame too short for the Ethernet and IPv4 headers, or with another
  EtherType, or with a header length of at least 5 words and a protocol that is neither
  TCP nor UDP, gets the verdict PASS and leaves the statistics as they were.
\<close>

theorem pass_through:
  "length pkt < sizeof_ethhdr + sizeof_iphdr
   \<or> eth_h_proto pkt \<noteq> bpf_htons ETH_P_IP
   \<or> (5 \<le> ip_ihl pkt \<and> ip_protocol pkt \<noteq> IPPROTO_TCP \<and> ip_protocol pkt \<noteq> IPPROTO_UDP)
   \<longrightarrow> xdp_filter_func allowed_ports cidr_rules st pkt = (XDP_PASS, st)"
  by (auto simp: xdp_filter_func_def parse_frame_cases)

theorem pass_through_witness:
  "xdp_filter_func ports_example cidr_example stats_zero frame_icmp = (XDP_PASS, stats_zero)
   \<and> xdp_filter_func ports_example cidr_example stats_zero [0, 0, 0, 0, 0, 0, 0, 0, 0, 0]
       = (XDP_PASS, stats_zero)"
  using pass_through [of frame_icmp ports_example cidr_example stats_zero]
    pass_through [of "[0, 0, 0, 0, 0, 0, 0, 0, 0, 0]" ports_example cidr_example stats_zero]
    frame_icmp_eval
  by (simp add: sizeof_ethhdr_def sizeof_iphdr_def)

text \<open>
  C9. The result is a function of the two rule maps, the statistics, the frame length
  and the header bytes: two frames of the same length that agree up to the end of the
  transport header get the same verdict and leave the same statistics, whatever their
  payloads are.
\<close>

theorem payload_independence:
  "length pkt' = length pkt \<and> take (headers_end pkt) pkt' = take (headers_end pkt) pkt \<longrightarrow>
     xdp_filter_func allowed_ports cidr_rules st pkt'
       = xdp_filter_func allowed_ports cidr_rules st pkt"
proof
  assume "length pkt' = length pkt \<and> take (headers_end pkt) pkt' = take (headers_end pkt) pkt"
  then have "parse_frame pkt' = parse_frame pkt"
    by (intro parse_frame_headers_only) simp_all
  then show "xdp_filter_func allowed_ports cidr_rules st pkt'
       = xdp_filter_func allowed_ports cidr_rules st pkt"
    by (simp only: xdp_filter_func_def)
qed

theorem payload_independence_witness:
  "xdp_filter_func ports_example cidr_example stats_zero (frame_tcp_22 @ [9, 9, 9])
     = xdp_filter_func ports_example cidr_example stats_zero (frame_tcp_22 @ [1, 2, 3])
   \<and> frame_tcp_22 @ [9, 9, 9] \<noteq> frame_tcp_22 @ [1, 2, 3]"
proof -
  have "length (frame_tcp_22 @ [9, 9, 9]) = length (frame_tcp_22 @ [1, 2, 3])
      \<and> take (headers_end (frame_tcp_22 @ [1, 2, 3])) (frame_tcp_22 @ [9, 9, 9])
        = take (headers_end (frame_tcp_22 @ [1, 2, 3])) (frame_tcp_22 @ [1, 2, 3])"
    unfolding headers_end_tcp_22 by (simp add: frame_tcp_22_def)
  from payload_independence [THEN mp, OF this] show ?thesis by simp
qed

end
